theory Spec2Isabelle
  imports Main
begin

section \<open>Python strings\<close>

text \<open>
  Strings are byte lists. \<open>str.upper\<close> works on Unicode text and is not defined here:
  the handlers that call it take it as the parameter \<open>str_upper\<close>. \<open>str.lower\<close> is only
  used to compare a file extension with four ASCII words, and is modelled on the ASCII
  letters, every other character left as it is.
\<close>

definition lower_char :: "char \<Rightarrow> char" where
  "lower_char c =
     (let n = (of_char c :: nat) in if 65 \<le> n \<and> n \<le> 90 then char_of (n + 32) else c)"

definition lower :: "string \<Rightarrow> string" where
  "lower s = map lower_char s"

text \<open>\<open>y.split("-", 1)[0]\<close>: the part of \<open>y\<close> before its first \<open>-\<close>, all of \<open>y\<close> when it has none.\<close>

definition split_first :: "string \<Rightarrow> string" where
  "split_first y = takeWhile (\<lambda>c. c \<noteq> CHR ''-'') y"

text \<open>\<open>filename.rsplit(".", 1)[1]\<close> for a filename that contains a dot: the part after the last dot.\<close>

definition rsplit_last :: "string \<Rightarrow> string" where
  "rsplit_last filename = rev (takeWhile (\<lambda>c. c \<noteq> CHR ''.'') (rev filename))"

section \<open>Application state\<close>

datatype py_error = KeyError | IndexError | AttributeError

datatype response =
    Redirect string
  | Abort nat
  | Render string "string list" "(nat \<times> string \<times> string) list"
  | Raise py_error

record note_row =
  note_id :: string
  note_owner :: string
  note_text :: "string option"
  note_time :: string

record image_row =
  image_uid :: string
  image_owner :: string
  image_name :: string
  image_time :: string

text \<open>
  The session holds at most one \<open>current_user\<close> and the flashed messages; the three
  tables are those of the \<open>database\<close> module; \<open>upload_folder\<close> is the directory
  \<open>UPLOAD_FOLDER\<close>, a list of (file name, contents) in the order \<open>os.listdir\<close> gives.
\<close>

record state =
  current_user :: "string option"
  flashes :: "(string \<times> string) list"
  user_db :: "(string \<times> string) list"
  note_db :: "note_row list"
  image_db :: "image_row list"
  upload_folder :: "(string \<times> string) list"

section \<open>The database module\<close>

text \<open>
  \<open>app.py\<close> imports its store functions from the module \<open>database\<close>, which is not among
  the sources. Each of them is modelled below from the store contracts of the
  specification's external interfaces, on the tables of the state.
\<close>

text \<open>
  Modelled from the spec: \<open>list_users\<close> is missing; it is \<open>listUserIds\<close>, the ids of the
  known users.
\<close>

definition list_users :: "state \<Rightarrow> string list" where
  "list_users s = map fst (user_db s)"

text \<open>
  Modelled from the spec: \<open>verify\<close> is missing; it is \<open>verify(id, password) -> bool\<close>. The
  credential hash is kept abstract: the table holds the password and \<open>verify\<close> compares it
  with the one of the first row of that id.
\<close>

definition verify :: "state \<Rightarrow> string \<Rightarrow> string \<Rightarrow> bool" where
  "verify s uid pw = (map_of (user_db s) uid = Some pw)"

text \<open>
  Modelled from the spec: \<open>add_user\<close> is missing; it creates the user with the given id and
  password, and a user's identity is a string id case-normalized upper-case, so the
  credential store keeps the id upper-cased by \<open>str.upper\<close>, the parameter \<open>str_upper\<close>.
\<close>

definition add_user :: "(string \<Rightarrow> string) \<Rightarrow> state \<Rightarrow> string \<Rightarrow> string \<Rightarrow> state" where
  "add_user str_upper s uid pw = s\<lparr>user_db := user_db s @ [(str_upper uid, pw)]\<rparr>"

text \<open>
  Modelled from the spec: \<open>delete_user_from_db\<close> is missing; deleting a user removes the
  user's record and every note and image metadata row the user owned.
\<close>

definition delete_user_from_db :: "state \<Rightarrow> string \<Rightarrow> state" where
  "delete_user_from_db s uid =
     s\<lparr>user_db := filter (\<lambda>u. fst u \<noteq> uid) (user_db s),
       note_db := filter (\<lambda>n. note_owner n \<noteq> uid) (note_db s),
       image_db := filter (\<lambda>i. image_owner i \<noteq> uid) (image_db s)\<rparr>"

text \<open>
  Modelled from the spec: \<open>write_note_into_db\<close> is missing; it is
  \<open>insertNote(ownerId, text) -> noteId\<close>. The store makes the note's id and timestamp
  itself; here they are given by the caller's environment.
\<close>

definition write_note_into_db ::
  "state \<Rightarrow> string \<Rightarrow> string option \<Rightarrow> string \<Rightarrow> string \<Rightarrow> state" where
  "write_note_into_db s uid txt nid now =
     s\<lparr>note_db := note_db s @
        [\<lparr>note_id = nid, note_owner = uid, note_text = txt, note_time = now\<rparr>]\<rparr>"

text \<open>
  Modelled from the spec: \<open>match_user_id_with_note_id\<close> is missing; it is
  \<open>ownerOfNote(noteId) -> ownerId | NotFound\<close>: the owner of the first row of that id,
  and NotFound is \<open>None\<close> (Python's \<open>None\<close>, which is also what \<open>session.get\<close> gives with
  nobody logged in).
\<close>

fun match_user_id_with_note_id_rows :: "note_row list \<Rightarrow> string \<Rightarrow> string option" where
  "match_user_id_with_note_id_rows [] nid = None"
| "match_user_id_with_note_id_rows (n # ns) nid =
     (if note_id n = nid then Some (note_owner n) else match_user_id_with_note_id_rows ns nid)"

definition match_user_id_with_note_id :: "state \<Rightarrow> string \<Rightarrow> string option" where
  "match_user_id_with_note_id s nid = match_user_id_with_note_id_rows (note_db s) nid"

text \<open>
  Modelled from the spec: \<open>delete_note_from_db\<close> is missing; it is \<open>deleteNote(noteId)\<close>.
\<close>

definition delete_note_from_db :: "state \<Rightarrow> string \<Rightarrow> state" where
  "delete_note_from_db s nid = s\<lparr>note_db := filter (\<lambda>n. note_id n \<noteq> nid) (note_db s)\<rparr>"

text \<open>
  Modelled from the spec: \<open>image_upload_record\<close> is missing; it is
  \<open>insertImage(imageId, ownerId, filename, timestamp)\<close>.
\<close>

definition image_upload_record ::
  "state \<Rightarrow> string \<Rightarrow> string \<Rightarrow> string \<Rightarrow> string \<Rightarrow> state" where
  "image_upload_record s uid owner filename upload_time =
     s\<lparr>image_db := image_db s @
        [\<lparr>image_uid = uid, image_owner = owner, image_name = filename,
          image_time = upload_time\<rparr>]\<rparr>"

text \<open>
  Modelled from the spec: \<open>list_images_for_user\<close> is missing; it is
  \<open>listImagesFor(ownerId)\<close>, a sequence of (imageId, filename, timestamp).
\<close>

definition list_images_for_user :: "state \<Rightarrow> string \<Rightarrow> (string \<times> string \<times> string) list" where
  "list_images_for_user s uid =
     map (\<lambda>i. (image_uid i, image_name i, image_time i))
         (filter (\<lambda>i. image_owner i = uid) (image_db s))"

text \<open>
  Modelled from the spec: \<open>match_user_id_with_image_uid\<close> is missing; it is
  \<open>ownerOfImage(imageId) -> ownerId | NotFound\<close>, with NotFound as for the notes.
\<close>

fun match_user_id_with_image_uid_rows :: "image_row list \<Rightarrow> string \<Rightarrow> string option" where
  "match_user_id_with_image_uid_rows [] uid = None"
| "match_user_id_with_image_uid_rows (i # is) uid =
     (if image_uid i = uid then Some (image_owner i)
      else match_user_id_with_image_uid_rows is uid)"

definition match_user_id_with_image_uid :: "state \<Rightarrow> string \<Rightarrow> string option" where
  "match_user_id_with_image_uid s uid = match_user_id_with_image_uid_rows (image_db s) uid"

text \<open>
  Modelled from the spec: \<open>delete_image_from_db\<close> is missing; it is
  \<open>deleteImageMeta(imageId)\<close>.
\<close>

definition delete_image_from_db :: "state \<Rightarrow> string \<Rightarrow> state" where
  "delete_image_from_db s uid =
     s\<lparr>image_db := filter (\<lambda>i. image_uid i \<noteq> uid) (image_db s)\<rparr>"

section \<open>The blob store\<close>

text \<open>
  \<open>os.listdir(UPLOAD_FOLDER)\<close> and \<open>os.remove\<close> of a listed file, on the upload folder of
  the state.
\<close>

definition listdir :: "state \<Rightarrow> string list" where
  "listdir s = map fst (upload_folder s)"

definition os_remove :: "state \<Rightarrow> string \<Rightarrow> state" where
  "os_remove s name = s\<lparr>upload_folder := filter (\<lambda>e. fst e \<noteq> name) (upload_folder s)\<rparr>"

text \<open>\<open>file.save(path)\<close> writes the file, replacing one of the same name.\<close>

fun save_entry :: "(string \<times> string) list \<Rightarrow> string \<Rightarrow> string \<Rightarrow> (string \<times> string) list" where
  "save_entry [] name bytes = [(name, bytes)]"
| "save_entry (e # es) name bytes =
     (if fst e = name then (name, bytes) # es else e # save_entry es name bytes)"

definition file_save :: "state \<Rightarrow> string \<Rightarrow> string \<Rightarrow> state" where
  "file_save s name bytes = s\<lparr>upload_folder := save_entry (upload_folder s) name bytes\<rparr>"

definition flash :: "state \<Rightarrow> string \<Rightarrow> string \<Rightarrow> state" where
  "flash s message category = s\<lparr>flashes := flashes s @ [(message, category)]\<rparr>"

section \<open>The request handlers of app.py\<close>

text \<open>
  A handler takes the state (session, tables, upload folder) and the request's
  parameters, and returns the response with the state it leaves. An uncaught Python
  exception is the response \<open>Raise\<close>, with the state as it was when the exception was
  raised. Logging, rate limiting and the response headers are not modelled.
  \<open>str_upper\<close> is Python's \<open>str.upper\<close>, a parameter as the other library functions are.

  A form field read with \<open>request.form.get\<close> is an option where the handler itself
  uses the value (\<open>id\<close>, on which it calls \<open>upper\<close>; the note's text, which it passes on).
  The field \<open>pw\<close> only goes to \<open>verify\<close> and \<open>add_user\<close>, whose contracts take a
  password: the handlers are modelled for requests that carry it.
\<close>

definition FUN_write_note :: "state \<Rightarrow> string option \<Rightarrow> string \<Rightarrow> string \<Rightarrow> response \<times> state" where
  "FUN_write_note s text_to_write nid now =
     (case current_user s of
        None \<Rightarrow> (Raise KeyError, s)
      | Some u \<Rightarrow> (Redirect ''FUN_private'', write_note_into_db s u text_to_write nid now))"

definition FUN_delete_note :: "state \<Rightarrow> string \<Rightarrow> response \<times> state" where
  "FUN_delete_note s nid =
     (if current_user s = match_user_id_with_note_id s nid
      then (Redirect ''FUN_private'', delete_note_from_db s nid)
      else (Abort 401, s))"

definition ALLOWED_EXTENSIONS :: "string set" where
  "ALLOWED_EXTENSIONS = {''png'', ''jpg'', ''jpeg'', ''gif''}"

definition allowed_file :: "string \<Rightarrow> bool" where
  "allowed_file filename =
     (CHR ''.'' \<in> set filename \<and> lower (rsplit_last filename) \<in> ALLOWED_EXTENSIONS)"

text \<open>
  \<open>sha1_hex\<close> is \<open>hashlib.sha1(x.encode()).hexdigest()\<close>, \<open>secure_filename\<close> is werkzeug's, and
  \<open>now\<close> is \<open>str(datetime.datetime.now())\<close>: all three come from outside app.py and are
  parameters. \<open>file\<close> is \<open>request.files.get("file")\<close>: the file's name and its bytes.
\<close>

definition FUN_upload_image ::
  "(string \<Rightarrow> string) \<Rightarrow> (string \<Rightarrow> string) \<Rightarrow> string \<Rightarrow> state \<Rightarrow> (string \<times> string) option
     \<Rightarrow> response \<times> state" where
  "FUN_upload_image sha1_hex secure_filename now s file =
     (case file of
        None \<Rightarrow> (Redirect ''FUN_private'', flash s ''No file part'' ''danger'')
      | Some (file_filename, bytes) \<Rightarrow>
          if file_filename = '''' then
            (Redirect ''FUN_private'', flash s ''No selected file'' ''danger'')
          else if allowed_file file_filename then
            (let filename = secure_filename file_filename;
                 upload_time = now;
                 image_uid = sha1_hex (upload_time @ filename);
                 s1 = file_save s (image_uid @ ''-'' @ filename) bytes
             in case current_user s1 of
                  None \<Rightarrow> (Raise KeyError, s1)
                | Some u \<Rightarrow>
                    (Redirect ''FUN_private'',
                     image_upload_record s1 image_uid u filename upload_time))
          else (Redirect ''FUN_private'', s))"

definition FUN_delete_image :: "state \<Rightarrow> string \<Rightarrow> response \<times> state" where
  "FUN_delete_image s uid =
     (if current_user s = match_user_id_with_image_uid s uid then
        (let s1 = delete_image_from_db s uid
         in case filter (\<lambda>y. split_first y = uid) (listdir s1) of
              [] \<Rightarrow> (Raise IndexError, s1)
            | image_to_delete_from_pool # _ \<Rightarrow>
                (Redirect ''FUN_private'', os_remove s1 image_to_delete_from_pool))
      else (Abort 401, s))"

definition FUN_login ::
  "(string \<Rightarrow> string) \<Rightarrow> state \<Rightarrow> string option \<Rightarrow> string \<Rightarrow> response \<times> state" where
  "FUN_login str_upper s form_id form_pw =
     (case form_id of
        None \<Rightarrow> (Raise AttributeError, s)
      | Some i \<Rightarrow>
          (let id_submitted = str_upper i
           in if id_submitted \<in> set (list_users s) \<and> verify s id_submitted form_pw
              then (Redirect ''FUN_root'', s\<lparr>current_user := Some id_submitted\<rparr>)
              else (Redirect ''FUN_root'', s)))"

text \<open>
  The loop of \<open>FUN_delete_user\<close> over \<open>images_to_remove\<close>: for each image id the first
  file of the listing whose prefix is the id is removed; with no such file the
  subscript \<open>[0]\<close> raises IndexError and the loop stops with the files removed so far.
\<close>

fun remove_from_pool :: "string list \<Rightarrow> state \<Rightarrow> py_error option \<times> state" where
  "remove_from_pool [] s = (None, s)"
| "remove_from_pool (f # fs) s =
     (case filter (\<lambda>y. split_first y = f) (listdir s) of
        [] \<Rightarrow> (Some IndexError, s)
      | image_to_delete_from_pool # _ \<Rightarrow>
          remove_from_pool fs (os_remove s image_to_delete_from_pool))"

definition FUN_delete_user :: "state \<Rightarrow> string \<Rightarrow> response \<times> state" where
  "FUN_delete_user s uid =
     (if current_user s = Some ''ADMIN'' then
        if uid = ''ADMIN'' then (Abort 403, s)
        else
          (let images_to_remove = map fst (list_images_for_user s uid)
           in case remove_from_pool images_to_remove s of
                (Some e, s1) \<Rightarrow> (Raise e, s1)
              | (None, s1) \<Rightarrow> (Redirect ''FUN_admin'', delete_user_from_db s1 uid))
      else (Abort 401, s))"

definition user_table :: "string list \<Rightarrow> (nat \<times> string \<times> string) list" where
  "user_table user_list =
     zip [1 ..< length user_list + 1]
         (zip user_list (map (\<lambda>y. ''/delete_user/'' @ y) user_list))"

definition FUN_add_user ::
  "(string \<Rightarrow> string) \<Rightarrow> state \<Rightarrow> string option \<Rightarrow> string \<Rightarrow> response \<times> state" where
  "FUN_add_user str_upper s form_id form_pw =
     (if current_user s = Some ''ADMIN'' then
        (case form_id of
           None \<Rightarrow> (Raise AttributeError, s)
         | Some i \<Rightarrow>
             if str_upper i \<in> set (list_users s) then
               (Render ''admin.html'' [''id_to_add_is_duplicated''] (user_table (list_users s)), s)
             else if CHR '' '' \<in> set i \<or> CHR 0x27 \<in> set i then
               (Render ''admin.html'' [''id_to_add_is_invalid''] (user_table (list_users s)), s)
             else (Redirect ''FUN_admin'', add_user str_upper s i form_pw))
      else (Abort 401, s))"

section \<open>An example state\<close>

text \<open>
  The ids of the examples are ASCII. On a string of ASCII characters \<open>str.upper\<close> turns
  the letters a to z into A to Z and leaves the rest; \<open>upper_ascii\<close> is that map, and
  stands for \<open>str_upper\<close> in the examples only.
\<close>

definition upper_ascii_char :: "char \<Rightarrow> char" where
  "upper_ascii_char c =
     (let n = (of_char c :: nat) in if 97 \<le> n \<and> n \<le> 122 then char_of (n - 32) else c)"

definition upper_ascii :: "string \<Rightarrow> string" where
  "upper_ascii s = map upper_ascii_char s"

text \<open>
  Three users, BOB logged in, one note and one image each for BOB and ALICE, and the two
  image files in the upload folder.
\<close>

definition example_state :: state where
  "example_state =
     \<lparr>current_user = Some ''BOB'',
      flashes = [],
      user_db = [(''ADMIN'', ''root-pw''), (''BOB'', ''bob-pw''), (''ALICE'', ''alice-pw'')],
      note_db =
        [\<lparr>note_id = ''n1'', note_owner = ''BOB'', note_text = Some ''milk'', note_time = ''t0''\<rparr>,
         \<lparr>note_id = ''n2'', note_owner = ''ALICE'', note_text = None, note_time = ''t1''\<rparr>],
      image_db =
        [\<lparr>image_uid = ''a1f'', image_owner = ''BOB'', image_name = ''photo.JPG'',
          image_time = ''t2''\<rparr>,
         \<lparr>image_uid = ''b2e'', image_owner = ''ALICE'', image_name = ''cat.png'',
          image_time = ''t3''\<rparr>],
      upload_folder = [(''a1f-photo.JPG'', ''bytes1''), (''b2e-cat.png'', ''bytes2'')]\<rparr>"

lemmas eval_defs =
  example_state_def FUN_delete_image_def FUN_delete_note_def FUN_delete_user_def
  FUN_login_def FUN_add_user_def FUN_upload_image_def FUN_write_note_def
  match_user_id_with_image_uid_def match_user_id_with_note_id_def
  delete_image_from_db_def delete_note_from_db_def delete_user_from_db_def
  list_images_for_user_def list_users_def verify_def add_user_def
  listdir_def os_remove_def file_save_def flash_def image_upload_record_def
  split_first_def user_table_def Let_def

section \<open>Auxiliary facts\<close>

subsection \<open>Strings\<close>

lemma upper_ascii_char_idem: "upper_ascii_char (upper_ascii_char c) = upper_ascii_char c"
  by (auto simp: upper_ascii_char_def Let_def)

lemma upper_ascii_idem: "upper_ascii (upper_ascii i) = upper_ascii i"
  by (simp add: upper_ascii_def upper_ascii_char_idem)

lemma upper_ascii_examples:
  "upper_ascii ''ADMIN'' = ''ADMIN''" "upper_ascii ''BOB'' = ''BOB''" "upper_ascii ''ALICE'' = ''ALICE''"
  "upper_ascii ''alice'' = ''ALICE''" "upper_ascii ''bob'' = ''BOB''" "upper_ascii ''bad id'' = ''BAD ID''"
  "upper_ascii ''VALIDUSER'' = ''VALIDUSER''" "upper_ascii ''mallory'' = ''MALLORY''"
  "upper_ascii ''BoB'' = ''BOB''"
  by code_simp+

lemma rsplit_last_append:
  assumes "CHR ''.'' \<notin> set ext"
  shows "rsplit_last (stem @ CHR ''.'' # ext) = ext"
proof -
  have "\<And>x. x \<in> set (rev ext) \<Longrightarrow> x \<noteq> CHR ''.''"
    using assms by auto
  then have "takeWhile (\<lambda>c. c \<noteq> CHR ''.'') (rev ext @ CHR ''.'' # rev stem)
      = rev ext @ takeWhile (\<lambda>c. c \<noteq> CHR ''.'') (CHR ''.'' # rev stem)"
    by (rule takeWhile_append2)
  then show ?thesis by (simp add: rsplit_last_def)
qed

lemma rsplit_last_decompose:
  assumes "CHR ''.'' \<in> set filename"
  shows "\<exists>stem. filename = stem @ CHR ''.'' # rsplit_last filename"
    and "CHR ''.'' \<notin> set (rsplit_last filename)"
proof -
  let ?P = "\<lambda>c. c \<noteq> CHR ''.''"
  let ?r = "rev filename"
  from assms have "dropWhile ?P ?r \<noteq> []" by (simp add: dropWhile_eq_Nil_conv)
  then obtain rest where d: "dropWhile ?P ?r = CHR ''.'' # rest"
    using hd_dropWhile [of ?P ?r] by (cases "dropWhile ?P ?r") auto
  have "?r = takeWhile ?P ?r @ dropWhile ?P ?r" by simp
  then have "rev ?r = rev (takeWhile ?P ?r @ CHR ''.'' # rest)" by (simp only: d)
  then have "filename = rev rest @ CHR ''.'' # rsplit_last filename"
    by (simp add: rsplit_last_def)
  then show "\<exists>stem. filename = stem @ CHR ''.'' # rsplit_last filename" ..
  show "CHR ''.'' \<notin> set (rsplit_last filename)"
    by (auto simp: rsplit_last_def dest: set_takeWhileD)
qed

lemma allowed_file_examples:
  "allowed_file ''photo.JPG''" "\<not> allowed_file ''malware.exe''" "\<not> allowed_file ''png''"
  "\<not> allowed_file ''archive.png.zip''"
  by code_simp+

subsection \<open>Lists and lookups\<close>

lemma filter_singleton_removed:
  assumes "filter P xs = [b]"
  shows "filter P (filter (\<lambda>x. x \<noteq> b) xs) = []"
proof -
  have "\<forall>x \<in> set xs. P x \<longrightarrow> x = b"
  proof (intro ballI impI)
    fix x assume "x \<in> set xs" "P x"
    then have "x \<in> set (filter P xs)" by simp
    with assms show "x = b" by simp
  qed
  then show ?thesis by (auto simp: filter_empty_conv)
qed

lemma filter_filter_absorb:
  "(\<And>x. P x \<Longrightarrow> Q x) \<Longrightarrow> filter P (filter Q xs) = filter P xs"
  by (induction xs) auto

lemma match_image_none_iff:
  "match_user_id_with_image_uid_rows rs uid = None \<longleftrightarrow> uid \<notin> image_uid ` set rs"
  by (induction rs) auto

lemma match_note_none_iff:
  "match_user_id_with_note_id_rows rs nid = None \<longleftrightarrow> nid \<notin> note_id ` set rs"
  by (induction rs) auto

lemma map_of_save_entry: "map_of (save_entry es name bytes) name = Some bytes"
  by (induction es) auto

subsection \<open>Effects of the store operations\<close>

lemma listdir_delete_image_from_db [simp]:
  "listdir (delete_image_from_db s uid) = listdir s"
  by (simp add: listdir_def delete_image_from_db_def)

lemma match_after_delete_image_from_db [simp]:
  "match_user_id_with_image_uid (delete_image_from_db s uid) uid = None"
  by (auto simp: match_user_id_with_image_uid_def delete_image_from_db_def match_image_none_iff)

lemma match_os_remove [simp]:
  "match_user_id_with_image_uid (os_remove s y) uid = match_user_id_with_image_uid s uid"
  by (simp add: match_user_id_with_image_uid_def os_remove_def)

lemma listdir_os_remove: "listdir (os_remove s y) = filter (\<lambda>x. x \<noteq> y) (listdir s)"
  by (simp add: listdir_def os_remove_def filter_map comp_def)

lemma remove_from_pool_frame:
  "remove_from_pool fs s = (r, s') \<Longrightarrow>
     current_user s' = current_user s \<and> user_db s' = user_db s \<and> note_db s' = note_db s
     \<and> image_db s' = image_db s \<and> set (listdir s') \<subseteq> set (listdir s)"
proof (induction fs arbitrary: s)
  case Nil
  then show ?case by simp
next
  case (Cons f fs)
  show ?case
  proof (cases "filter (\<lambda>y. split_first y = f) (listdir s)")
    case Nil
    with Cons.prems show ?thesis by simp
  next
    case (Cons y ys)
    with Cons.prems have "remove_from_pool fs (os_remove s y) = (r, s')" by simp
    from Cons.IH [OF this] show ?thesis
      by (auto simp: os_remove_def listdir_def)
  qed
qed

lemma remove_from_pool_ok:
  assumes "distinct fs"
    and "\<forall>f \<in> set fs. length (filter (\<lambda>y. split_first y = f) (listdir s)) = 1"
  shows "\<exists>s'. remove_from_pool fs s = (None, s')
            \<and> (\<forall>f \<in> set fs. \<forall>y \<in> set (listdir s'). split_first y \<noteq> f)"
  using assms
proof (induction fs arbitrary: s)
  case Nil
  then show ?case by simp
next
  case (Cons f fs)
  from Cons.prems have "length (filter (\<lambda>y. split_first y = f) (listdir s)) = 1" by simp
  then obtain b where one: "filter (\<lambda>y. split_first y = f) (listdir s) = [b]"
    by (cases "filter (\<lambda>y. split_first y = f) (listdir s)") auto
  have pb: "split_first b = f"
  proof -
    have "b \<in> set (filter (\<lambda>y. split_first y = f) (listdir s))" by (simp add: one)
    then show ?thesis by simp
  qed
  let ?s1 = "os_remove s b"
  have keep: "filter (\<lambda>y. split_first y = g) (listdir ?s1)
                = filter (\<lambda>y. split_first y = g) (listdir s)" if "g \<noteq> f" for g
    unfolding listdir_os_remove using that pb by (intro filter_filter_absorb) auto
  have "\<forall>g \<in> set fs. length (filter (\<lambda>y. split_first y = g) (listdir ?s1)) = 1"
  proof
    fix g assume g: "g \<in> set fs"
    with Cons.prems have "g \<noteq> f" by auto
    from keep [OF this] Cons.prems g
    show "length (filter (\<lambda>y. split_first y = g) (listdir ?s1)) = 1" by simp
  qed
  moreover have "distinct fs" using Cons.prems by simp
  ultimately obtain s' where r: "remove_from_pool fs ?s1 = (None, s')"
    and rest: "\<forall>g \<in> set fs. \<forall>y \<in> set (listdir s'). split_first y \<noteq> g"
    using Cons.IH by blast
  have sub: "set (listdir s') \<subseteq> set (listdir ?s1)"
    using remove_from_pool_frame [OF r] by simp
  have "filter (\<lambda>y. split_first y = f) (listdir ?s1) = []"
    using filter_singleton_removed [OF one] by (simp add: listdir_os_remove)
  then have "\<forall>y \<in> set (listdir ?s1). split_first y \<noteq> f"
    by (simp add: filter_empty_conv)
  with sub have "\<forall>y \<in> set (listdir s'). split_first y \<noteq> f" by blast
  with r rest one show ?case by simp
qed

lemma note_lookup_after_delete_user:
  assumes dn: "distinct (map note_id (note_db s))"
    and n: "n \<in> set (note_db s)" "note_owner n = u"
    and frame: "note_db s1 = note_db s"
  shows "match_user_id_with_note_id (delete_user_from_db s1 u) (note_id n) = None"
proof -
  have inj: "inj_on note_id (set (note_db s))"
    using dn by (simp add: distinct_map)
  have "note_id n \<notin> note_id ` set (filter (\<lambda>m. note_owner m \<noteq> u) (note_db s))"
  proof
    assume "note_id n \<in> note_id ` set (filter (\<lambda>m. note_owner m \<noteq> u) (note_db s))"
    then obtain m where m: "m \<in> set (note_db s)" "note_owner m \<noteq> u" "note_id m = note_id n"
      by auto
    from inj_onD [OF inj m(3) m(1) n(1)] have "m = n" .
    with m(2) n(2) show False by simp
  qed
  then show ?thesis
    by (simp add: match_user_id_with_note_id_def delete_user_from_db_def frame
        match_note_none_iff)
qed

lemma image_lookup_after_delete_user:
  assumes di: "distinct (map image_uid (image_db s))"
    and i: "i \<in> set (image_db s)" "image_owner i = u"
    and frame: "image_db s1 = image_db s"
  shows "match_user_id_with_image_uid (delete_user_from_db s1 u) (image_uid i) = None"
proof -
  have inj: "inj_on image_uid (set (image_db s))"
    using di by (simp add: distinct_map)
  have "image_uid i \<notin> image_uid ` set (filter (\<lambda>j. image_owner j \<noteq> u) (image_db s))"
  proof
    assume "image_uid i \<in> image_uid ` set (filter (\<lambda>j. image_owner j \<noteq> u) (image_db s))"
    then obtain j where j: "j \<in> set (image_db s)" "image_owner j \<noteq> u" "image_uid j = image_uid i"
      by auto
    from inj_onD [OF inj j(3) j(1) i(1)] have "j = i" .
    with j(2) i(2) show False by simp
  qed
  then show ?thesis
    by (simp add: match_user_id_with_image_uid_def delete_user_from_db_def frame
        match_image_none_iff)
qed

section \<open>Properties of the handlers\<close>

subsection \<open>Deleting an image\<close>

text \<open>
  Claim C1. Let the image id resolve to the owner \<open>a\<close>. Every requester other than
  \<open>a\<close> (another user, ADMIN included, or nobody logged in) gets 401 and the state is
  unchanged. For the requester \<open>a\<close>, when the image has its one file \<open>b\<close> in the upload
  folder (the data model: one file per metadata row), the delete redirects to the private
  page, the id no longer resolves, \<open>b\<close> is gone and no file with the id as prefix is left.
\<close>

theorem delete_image_owner_only:
  assumes "match_user_id_with_image_uid s uid = Some a"
  shows "(current_user s \<noteq> Some a \<longrightarrow> FUN_delete_image s uid = (Abort 401, s))
       \<and> (current_user s = Some a \<longrightarrow> filter (\<lambda>y. split_first y = uid) (listdir s) = [b] \<longrightarrow>
            fst (FUN_delete_image s uid) = Redirect ''FUN_private''
          \<and> match_user_id_with_image_uid (snd (FUN_delete_image s uid)) uid = None
          \<and> b \<notin> set (listdir (snd (FUN_delete_image s uid)))
          \<and> (\<forall>y \<in> set (listdir (snd (FUN_delete_image s uid))). split_first y \<noteq> uid))"
proof (intro conjI impI)
  assume "current_user s \<noteq> Some a"
  with assms show "FUN_delete_image s uid = (Abort 401, s)"
    by (simp add: FUN_delete_image_def)
next
  assume own: "current_user s = Some a"
    and one: "filter (\<lambda>y. split_first y = uid) (listdir s) = [b]"
  have res: "FUN_delete_image s uid =
      (Redirect ''FUN_private'', os_remove (delete_image_from_db s uid) b)"
    using assms own one by (simp add: FUN_delete_image_def)
  show "fst (FUN_delete_image s uid) = Redirect ''FUN_private''"
    by (simp add: res)
  show "match_user_id_with_image_uid (snd (FUN_delete_image s uid)) uid = None"
    by (simp add: res)
  show "b \<notin> set (listdir (snd (FUN_delete_image s uid)))"
    by (simp add: res listdir_os_remove)
  have "filter (\<lambda>y. split_first y = uid) (listdir (snd (FUN_delete_image s uid))) = []"
    using filter_singleton_removed [OF one] by (simp add: res listdir_os_remove)
  then show "\<forall>y \<in> set (listdir (snd (FUN_delete_image s uid))). split_first y \<noteq> uid"
    by (simp add: filter_empty_conv)
qed

theorem delete_image_owner_only_witness:
  "match_user_id_with_image_uid example_state ''b2e'' = Some ''ALICE''
 \<and> current_user example_state = Some ''BOB''
 \<and> FUN_delete_image example_state ''b2e'' = (Abort 401, example_state)
 \<and> match_user_id_with_image_uid example_state ''a1f'' = Some ''BOB''
 \<and> fst (FUN_delete_image example_state ''a1f'') = Redirect ''FUN_private''
 \<and> match_user_id_with_image_uid (snd (FUN_delete_image example_state ''a1f'')) ''a1f'' = None
 \<and> listdir (snd (FUN_delete_image example_state ''a1f'')) = [''b2e-cat.png'']"
  using delete_image_owner_only [of example_state "''b2e''" "''ALICE''"]
    delete_image_owner_only [of example_state "''a1f''" "''BOB''" "''a1f-photo.JPG''"]
  by (simp add: eval_defs)

text \<open>
  Claim C4, as the code has it. The claim asks for ResourceNotFound on an id that does not
  resolve and for IntegrityError when zero or several files match. \<open>FUN_delete_image\<close> has
  neither: an id without a row sends a logged-in requester to 401, no file raises
  IndexError at the subscript \<open>[0]\<close> after the row is deleted, and of several files the
  first of the listing is removed.
\<close>

theorem delete_image_not_found_counterexample:
  "current_user example_state = Some ''BOB''
 \<and> match_user_id_with_image_uid example_state ''0000'' = None
 \<and> FUN_delete_image example_state ''0000'' = (Abort 401, example_state)
 \<and> fst (FUN_delete_image example_state ''0000'') \<noteq> Abort 404
 \<and> fst (FUN_delete_image (example_state\<lparr>upload_folder := []\<rparr>) ''a1f'') = Raise IndexError
 \<and> FUN_delete_image
      (example_state\<lparr>upload_folder := [(''a1f-x.png'', ''x''), (''a1f-photo.JPG'', ''y'')]\<rparr>)
      ''a1f''
     = (Redirect ''FUN_private'',
        example_state\<lparr>image_db := [\<lparr>image_uid = ''b2e'', image_owner = ''ALICE'',
                                    image_name = ''cat.png'', image_time = ''t3''\<rparr>],
                       upload_folder := [(''a1f-photo.JPG'', ''y'')]\<rparr>)"
  by (simp add: eval_defs)

text \<open>
  Claim C4, amended. For a logged-in requester an id that does not resolve gives 401 and
  leaves the state unchanged; so does a second delete by the owner after a first one that
  succeeded. When the id resolves to the requester and one or more files carry the id as
  prefix, the row is deleted and the first such file of the listing is removed. What
  happens with no such file is not part of the statement.
\<close>

theorem delete_image_unresolved_or_ambiguous:
  "(current_user s = Some b \<and> match_user_id_with_image_uid s uid = None \<longrightarrow>
      FUN_delete_image s uid = (Abort 401, s))
 \<and> (current_user s = Some a \<and> match_user_id_with_image_uid s uid = Some a
      \<and> FUN_delete_image s uid = (Redirect ''FUN_private'', s') \<longrightarrow>
      FUN_delete_image s' uid = (Abort 401, s'))
 \<and> (current_user s = Some a \<and> match_user_id_with_image_uid s uid = Some a
      \<and> filter (\<lambda>y. split_first y = uid) (listdir s) = y # ys \<longrightarrow>
      FUN_delete_image s uid = (Redirect ''FUN_private'', os_remove (delete_image_from_db s uid) y))"
proof (intro conjI impI)
  assume "current_user s = Some b \<and> match_user_id_with_image_uid s uid = None"
  then show "FUN_delete_image s uid = (Abort 401, s)"
    by (simp add: FUN_delete_image_def)
next
  assume h: "current_user s = Some a \<and> match_user_id_with_image_uid s uid = Some a
      \<and> FUN_delete_image s uid = (Redirect ''FUN_private'', s')"
  then obtain y where s': "s' = os_remove (delete_image_from_db s uid) y"
    by (auto simp: FUN_delete_image_def Let_def split: list.splits)
  have "current_user s' = Some a"
    using h by (simp add: s' os_remove_def delete_image_from_db_def)
  moreover have "match_user_id_with_image_uid s' uid = None"
    by (simp add: s')
  ultimately show "FUN_delete_image s' uid = (Abort 401, s')"
    by (simp add: FUN_delete_image_def)
next
  assume "current_user s = Some a \<and> match_user_id_with_image_uid s uid = Some a
      \<and> filter (\<lambda>y. split_first y = uid) (listdir s) = y # ys"
  then show "FUN_delete_image s uid =
      (Redirect ''FUN_private'', os_remove (delete_image_from_db s uid) y)"
    by (simp add: FUN_delete_image_def)
qed

theorem delete_image_unresolved_or_ambiguous_witness:
  "FUN_delete_image example_state ''0000'' = (Abort 401, example_state)
 \<and> FUN_delete_image (snd (FUN_delete_image example_state ''a1f'')) ''a1f''
     = (Abort 401, snd (FUN_delete_image example_state ''a1f''))
 \<and> listdir (snd (FUN_delete_image
      (example_state\<lparr>upload_folder := [(''a1f-x.png'', ''x''), (''a1f-photo.JPG'', ''y'')]\<rparr>)
      ''a1f'')) = [''a1f-photo.JPG'']"
  using delete_image_unresolved_or_ambiguous
      [of example_state "''BOB''" "''0000''"]
    delete_image_unresolved_or_ambiguous
      [of example_state _ "''a1f''" "''BOB''" "snd (FUN_delete_image example_state ''a1f'')"]
    delete_image_unresolved_or_ambiguous
      [of "example_state\<lparr>upload_folder := [(''a1f-x.png'', ''x''), (''a1f-photo.JPG'', ''y'')]\<rparr>"
          _ "''a1f''" "''BOB''" _ "''a1f-x.png''" "[''a1f-photo.JPG'']"]
  by (simp add: eval_defs)

subsection \<open>Deleting a note\<close>

text \<open>
  Claim C5. Let the note id resolve to the owner \<open>a\<close>. \<open>FUN_delete_note\<close> redirects to
  the private page exactly when the session's user is \<open>a\<close>; every other requester, ADMIN
  included, gets 401 with the state unchanged. For the owner the state left is the one
  before with exactly the rows of that id taken out of the note table: the id no longer
  resolves, every note of another id is still there, and the session, the users, the
  images and the upload folder are as they were.
\<close>

theorem delete_note_owner_only:
  assumes "match_user_id_with_note_id s nid = Some a"
  shows "(fst (FUN_delete_note s nid) = Redirect ''FUN_private'' \<longleftrightarrow> current_user s = Some a)
       \<and> (current_user s \<noteq> Some a \<longrightarrow> FUN_delete_note s nid = (Abort 401, s))
       \<and> (current_user s = Some a \<longrightarrow>
            match_user_id_with_note_id (snd (FUN_delete_note s nid)) nid = None)
       \<and> (current_user s = Some a \<longrightarrow>
            FUN_delete_note s nid =
              (Redirect ''FUN_private'',
               s\<lparr>note_db := filter (\<lambda>n. note_id n \<noteq> nid) (note_db s)\<rparr>))
       \<and> (\<forall>n \<in> set (note_db s). note_id n \<noteq> nid \<longrightarrow>
            n \<in> set (note_db (snd (FUN_delete_note s nid))))"
proof (intro conjI impI ballI)
  show "(fst (FUN_delete_note s nid) = Redirect ''FUN_private'') = (current_user s = Some a)"
    using assms by (simp add: FUN_delete_note_def)
next
  assume "current_user s \<noteq> Some a"
  with assms show "FUN_delete_note s nid = (Abort 401, s)"
    by (simp add: FUN_delete_note_def)
next
  assume "current_user s = Some a"
  with assms show "match_user_id_with_note_id (snd (FUN_delete_note s nid)) nid = None"
    by (auto simp: FUN_delete_note_def match_user_id_with_note_id_def delete_note_from_db_def
        match_note_none_iff)
next
  assume "current_user s = Some a"
  with assms show "FUN_delete_note s nid =
      (Redirect ''FUN_private'', s\<lparr>note_db := filter (\<lambda>n. note_id n \<noteq> nid) (note_db s)\<rparr>)"
    by (simp add: FUN_delete_note_def delete_note_from_db_def)
next
  fix n assume "n \<in> set (note_db s)" "note_id n \<noteq> nid"
  then show "n \<in> set (note_db (snd (FUN_delete_note s nid)))"
    by (simp add: FUN_delete_note_def delete_note_from_db_def)
qed

theorem delete_note_owner_only_witness:
  "match_user_id_with_note_id example_state ''n1'' = Some ''BOB''
 \<and> FUN_delete_note example_state ''n1''
     = (Redirect ''FUN_private'',
        example_state\<lparr>note_db :=
          [\<lparr>note_id = ''n2'', note_owner = ''ALICE'', note_text = None, note_time = ''t1''\<rparr>]\<rparr>)
 \<and> match_user_id_with_note_id (snd (FUN_delete_note example_state ''n1'')) ''n1'' = None
 \<and> match_user_id_with_note_id (snd (FUN_delete_note example_state ''n1'')) ''n2''
     = Some ''ALICE''
 \<and> match_user_id_with_note_id example_state ''n2'' = Some ''ALICE''
 \<and> FUN_delete_note example_state ''n2'' = (Abort 401, example_state)
 \<and> FUN_delete_note (example_state\<lparr>current_user := Some ''ADMIN''\<rparr>) ''n2''
     = (Abort 401, example_state\<lparr>current_user := Some ''ADMIN''\<rparr>)"
  using delete_note_owner_only [of example_state "''n1''" "''BOB''"]
    delete_note_owner_only [of example_state "''n2''" "''ALICE''"]
    delete_note_owner_only [of "example_state\<lparr>current_user := Some ''ADMIN''\<rparr>" "''n2''" "''ALICE''"]
  by (simp add: eval_defs)

subsection \<open>Deleting a user\<close>

text \<open>
  Claim C2, as the code has it. The claim asks for Forbidden for every requester.
  \<open>FUN_delete_user\<close> tests the requester first: BOB asking to delete ADMIN gets 401.
\<close>

theorem delete_admin_forbidden_counterexample:
  "current_user example_state = Some ''BOB''
 \<and> FUN_delete_user example_state ''ADMIN'' = (Abort 401, example_state)
 \<and> fst (FUN_delete_user example_state ''ADMIN'') \<noteq> Abort 403"
  by (simp add: eval_defs)

text \<open>
  Claim C2, amended. Deleting the id ADMIN always fails and leaves the state, so also the
  user record, unchanged: with 403 when the requester is ADMIN, with 401 for every other
  requester.
\<close>

theorem delete_admin_always_fails:
  "FUN_delete_user s ''ADMIN'' =
     (if current_user s = Some ''ADMIN'' then Abort 403 else Abort 401, s)"
  by (simp add: FUN_delete_user_def)

theorem delete_admin_always_fails_witness:
  "FUN_delete_user (example_state\<lparr>current_user := Some ''ADMIN''\<rparr>) ''ADMIN''
     = (Abort 403, example_state\<lparr>current_user := Some ''ADMIN''\<rparr>)
 \<and> FUN_delete_user (example_state\<lparr>current_user := None\<rparr>) ''ADMIN''
     = (Abort 401, example_state\<lparr>current_user := None\<rparr>)"
  using delete_admin_always_fails [of "example_state\<lparr>current_user := Some ''ADMIN''\<rparr>"]
    delete_admin_always_fails [of "example_state\<lparr>current_user := None\<rparr>"]
  by simp

text \<open>
  Claim C3. ADMIN deletes a user \<open>u\<close> other than ADMIN, in a state where image ids and note
  ids are unique and each image of \<open>u\<close> has exactly one file with its id as prefix (the
  data model's invariants). Then the delete redirects to the admin page, \<open>u\<close> is no longer
  a user, every note id and image id that \<open>u\<close> owned no longer resolves, and no file with
  the id of one of \<open>u\<close>'s images as prefix is left in the upload folder.
\<close>

theorem delete_user_cascade:
  assumes adm: "current_user s = Some ''ADMIN''" and u: "u \<noteq> ''ADMIN''"
    and di: "distinct (map image_uid (image_db s))"
    and dn: "distinct (map note_id (note_db s))"
    and blob: "\<forall>i \<in> set (image_db s). image_owner i = u \<longrightarrow>
                 length (filter (\<lambda>y. split_first y = image_uid i) (listdir s)) = 1"
  shows "fst (FUN_delete_user s u) = Redirect ''FUN_admin''
       \<and> u \<notin> set (list_users (snd (FUN_delete_user s u)))
       \<and> (\<forall>n \<in> set (note_db s). note_owner n = u \<longrightarrow>
            match_user_id_with_note_id (snd (FUN_delete_user s u)) (note_id n) = None)
       \<and> (\<forall>i \<in> set (image_db s). image_owner i = u \<longrightarrow>
            match_user_id_with_image_uid (snd (FUN_delete_user s u)) (image_uid i) = None
          \<and> (\<forall>y \<in> set (listdir (snd (FUN_delete_user s u))). split_first y \<noteq> image_uid i))"
proof -
  let ?fs = "map fst (list_images_for_user s u)"
  have fs: "?fs = map image_uid (filter (\<lambda>i. image_owner i = u) (image_db s))"
    by (simp add: list_images_for_user_def comp_def)
  have "distinct ?fs"
    unfolding fs using di by (rule distinct_map_filter)
  moreover have "\<forall>f \<in> set ?fs. length (filter (\<lambda>y. split_first y = f) (listdir s)) = 1"
  proof
    fix f assume "f \<in> set ?fs"
    then obtain i where "i \<in> set (image_db s)" "image_owner i = u" "f = image_uid i"
      unfolding fs by auto
    with blob show "length (filter (\<lambda>y. split_first y = f) (listdir s)) = 1" by simp
  qed
  ultimately obtain s1 where r: "remove_from_pool ?fs s = (None, s1)"
    and gone: "\<forall>f \<in> set ?fs. \<forall>y \<in> set (listdir s1). split_first y \<noteq> f"
    using remove_from_pool_ok by blast
  have frame: "user_db s1 = user_db s" "note_db s1 = note_db s" "image_db s1 = image_db s"
    using remove_from_pool_frame [OF r] by simp_all
  have res: "FUN_delete_user s u = (Redirect ''FUN_admin'', delete_user_from_db s1 u)"
    using adm u r by (simp add: FUN_delete_user_def)
  have ld: "listdir (delete_user_from_db s1 u) = listdir s1"
    by (simp add: listdir_def delete_user_from_db_def)
  have c1: "u \<notin> set (list_users (delete_user_from_db s1 u))"
    by (auto simp: list_users_def delete_user_from_db_def)
  have c4: "\<forall>y \<in> set (listdir (delete_user_from_db s1 u)). split_first y \<noteq> image_uid i"
    if "i \<in> set (image_db s)" "image_owner i = u" for i
  proof -
    from that have "image_uid i \<in> set ?fs" unfolding fs by simp
    with gone show ?thesis unfolding ld by blast
  qed
  show ?thesis
    unfolding res fst_conv snd_conv
  proof (intro conjI ballI impI)
    show "Redirect ''FUN_admin'' = Redirect ''FUN_admin''" by (rule refl)
    show "u \<notin> set (list_users (delete_user_from_db s1 u))" by (rule c1)
  next
    fix n assume "n \<in> set (note_db s)" "note_owner n = u"
    then show "match_user_id_with_note_id (delete_user_from_db s1 u) (note_id n) = None"
      by (rule note_lookup_after_delete_user [OF dn _ _ frame(2)])
  next
    fix i assume i: "i \<in> set (image_db s)" "image_owner i = u"
    then show "match_user_id_with_image_uid (delete_user_from_db s1 u) (image_uid i) = None"
      by (rule image_lookup_after_delete_user [OF di _ _ frame(3)])
    fix y assume "y \<in> set (listdir (delete_user_from_db s1 u))"
    with c4 [OF i] show "split_first y \<noteq> image_uid i" by blast
  qed
qed

theorem delete_user_cascade_witness:
  "current_user (example_state\<lparr>current_user := Some ''ADMIN''\<rparr>) = Some ''ADMIN''
 \<and> fst (FUN_delete_user (example_state\<lparr>current_user := Some ''ADMIN''\<rparr>) ''BOB'')
     = Redirect ''FUN_admin''
 \<and> ''BOB'' \<notin> set (list_users
       (snd (FUN_delete_user (example_state\<lparr>current_user := Some ''ADMIN''\<rparr>) ''BOB'')))
 \<and> match_user_id_with_note_id
       (snd (FUN_delete_user (example_state\<lparr>current_user := Some ''ADMIN''\<rparr>) ''BOB'')) ''n1''
     = None
 \<and> match_user_id_with_image_uid
       (snd (FUN_delete_user (example_state\<lparr>current_user := Some ''ADMIN''\<rparr>) ''BOB'')) ''a1f''
     = None
 \<and> listdir (snd (FUN_delete_user (example_state\<lparr>current_user := Some ''ADMIN''\<rparr>) ''BOB''))
     = [''b2e-cat.png'']"
  using delete_user_cascade [of "example_state\<lparr>current_user := Some ''ADMIN''\<rparr>" "''BOB''"]
  by (simp add: eval_defs)

subsection \<open>Adding a user\<close>

text \<open>
  Claim C6. ADMIN adds the id \<open>i\<close>; the stored ids are upper-case, that is, \<open>str_upper\<close>
  leaves each of them as it is, and two ids are equal up to case when \<open>str_upper\<close> gives
  the same for both. If \<open>i\<close> equals a stored id up to case, the admin page is rendered
  with the duplicate flag and nothing changes. Otherwise, if \<open>i\<close> contains a space or a
  single quote, the admin page is rendered with the invalid flag and nothing changes.
  Otherwise the handler redirects to the admin page and the state left is the one before
  with the user appended under the upper-cased id and the given password: the password
  verifies, and the stored ids are still upper-case when upper-casing \<open>i\<close> twice is
  upper-casing it once.
\<close>

theorem add_user_checks:
  assumes adm: "current_user s = Some ''ADMIN''"
    and norm: "\<forall>e \<in> set (list_users s). str_upper e = e"
  shows "((\<exists>e \<in> set (list_users s). str_upper e = str_upper i) \<longrightarrow>
            FUN_add_user str_upper s (Some i) pw =
              (Render ''admin.html'' [''id_to_add_is_duplicated''] (user_table (list_users s)), s))
       \<and> (\<not> (\<exists>e \<in> set (list_users s). str_upper e = str_upper i)
            \<and> (CHR '' '' \<in> set i \<or> CHR 0x27 \<in> set i) \<longrightarrow>
            FUN_add_user str_upper s (Some i) pw =
              (Render ''admin.html'' [''id_to_add_is_invalid''] (user_table (list_users s)), s))
       \<and> (\<not> (\<exists>e \<in> set (list_users s). str_upper e = str_upper i)
            \<and> CHR '' '' \<notin> set i \<and> CHR 0x27 \<notin> set i \<longrightarrow>
            FUN_add_user str_upper s (Some i) pw =
              (Redirect ''FUN_admin'', s\<lparr>user_db := user_db s @ [(str_upper i, pw)]\<rparr>)
          \<and> list_users (snd (FUN_add_user str_upper s (Some i) pw))
              = list_users s @ [str_upper i]
          \<and> verify (snd (FUN_add_user str_upper s (Some i) pw)) (str_upper i) pw
          \<and> (str_upper (str_upper i) = str_upper i \<longrightarrow>
               (\<forall>e \<in> set (list_users (snd (FUN_add_user str_upper s (Some i) pw))).
                  str_upper e = e)))"
proof -
  have dup: "(\<exists>e \<in> set (list_users s). str_upper e = str_upper i)
               \<longleftrightarrow> str_upper i \<in> set (list_users s)"
  proof
    assume "\<exists>e \<in> set (list_users s). str_upper e = str_upper i"
    then obtain e where "e \<in> set (list_users s)" "str_upper e = str_upper i" by blast
    with norm show "str_upper i \<in> set (list_users s)" by force
  next
    assume m: "str_upper i \<in> set (list_users s)"
    with norm have "str_upper (str_upper i) = str_upper i" by blast
    with m show "\<exists>e \<in> set (list_users s). str_upper e = str_upper i" by blast
  qed
  show ?thesis
  proof (intro conjI impI)
    assume "\<exists>e \<in> set (list_users s). str_upper e = str_upper i"
    then have "str_upper i \<in> set (list_users s)" by (simp add: dup)
    with adm show "FUN_add_user str_upper s (Some i) pw =
        (Render ''admin.html'' [''id_to_add_is_duplicated''] (user_table (list_users s)), s)"
      by (simp add: FUN_add_user_def)
  next
    assume "\<not> (\<exists>e \<in> set (list_users s). str_upper e = str_upper i)
            \<and> (CHR '' '' \<in> set i \<or> CHR 0x27 \<in> set i)"
    then have "str_upper i \<notin> set (list_users s)" "CHR '' '' \<in> set i \<or> CHR 0x27 \<in> set i"
      by (simp_all add: dup)
    with adm show "FUN_add_user str_upper s (Some i) pw =
        (Render ''admin.html'' [''id_to_add_is_invalid''] (user_table (list_users s)), s)"
      by (simp add: FUN_add_user_def)
  next
    assume h: "\<not> (\<exists>e \<in> set (list_users s). str_upper e = str_upper i)
            \<and> CHR '' '' \<notin> set i \<and> CHR 0x27 \<notin> set i"
    then have new: "str_upper i \<notin> set (list_users s)"
      and ok: "CHR '' '' \<notin> set i" "CHR 0x27 \<notin> set i"
      by (simp_all add: dup)
    from adm new ok show res: "FUN_add_user str_upper s (Some i) pw =
        (Redirect ''FUN_admin'', s\<lparr>user_db := user_db s @ [(str_upper i, pw)]\<rparr>)"
      by (simp add: FUN_add_user_def add_user_def)
    show "list_users (snd (FUN_add_user str_upper s (Some i) pw)) = list_users s @ [str_upper i]"
      by (simp add: res list_users_def)
    have "map_of (user_db s) (str_upper i) = None"
      using new by (simp add: list_users_def map_of_eq_None_iff)
    then show "verify (snd (FUN_add_user str_upper s (Some i) pw)) (str_upper i) pw"
      by (simp add: res verify_def map_add_Some_iff)
    assume "str_upper (str_upper i) = str_upper i"
    with norm
    show "\<forall>e \<in> set (list_users (snd (FUN_add_user str_upper s (Some i) pw))). str_upper e = e"
      by (simp add: res list_users_def)
  qed
qed

theorem add_user_checks_witness:
  "current_user (example_state\<lparr>current_user := Some ''ADMIN''\<rparr>) = Some ''ADMIN''
 \<and> map upper_ascii (list_users (example_state\<lparr>current_user := Some ''ADMIN''\<rparr>))
     = list_users (example_state\<lparr>current_user := Some ''ADMIN''\<rparr>)
 \<and> FUN_add_user upper_ascii (example_state\<lparr>current_user := Some ''ADMIN''\<rparr>)
       (Some ''alice'') ''pw''
     = (Render ''admin.html'' [''id_to_add_is_duplicated'']
         [(1, ''ADMIN'', ''/delete_user/ADMIN''), (2, ''BOB'', ''/delete_user/BOB''),
          (3, ''ALICE'', ''/delete_user/ALICE'')],
        example_state\<lparr>current_user := Some ''ADMIN''\<rparr>)
 \<and> FUN_add_user upper_ascii (example_state\<lparr>current_user := Some ''ADMIN''\<rparr>)
       (Some ''bad id'') ''pw''
     = (Render ''admin.html'' [''id_to_add_is_invalid'']
         [(1, ''ADMIN'', ''/delete_user/ADMIN''), (2, ''BOB'', ''/delete_user/BOB''),
          (3, ''ALICE'', ''/delete_user/ALICE'')],
        example_state\<lparr>current_user := Some ''ADMIN''\<rparr>)
 \<and> FUN_add_user upper_ascii (example_state\<lparr>current_user := Some ''ADMIN''\<rparr>)
       (Some ''mallory'') ''pw''
     = (Redirect ''FUN_admin'',
        example_state\<lparr>current_user := Some ''ADMIN'',
          user_db := [(''ADMIN'', ''root-pw''), (''BOB'', ''bob-pw''), (''ALICE'', ''alice-pw''),
                      (''MALLORY'', ''pw'')]\<rparr>)"
proof -
  let ?s = "example_state\<lparr>current_user := Some ''ADMIN''\<rparr>"
  have adm: "current_user ?s = Some ''ADMIN''" by simp
  have users: "list_users ?s = [''ADMIN'', ''BOB'', ''ALICE'']"
    by (simp add: list_users_def example_state_def)
  have db: "user_db ?s = [(''ADMIN'', ''root-pw''), (''BOB'', ''bob-pw''), (''ALICE'', ''alice-pw'')]"
    by (simp add: example_state_def)
  have norm: "\<forall>e \<in> set (list_users ?s). upper_ascii e = e"
    by (simp add: users upper_ascii_examples)
  have d1: "\<exists>e \<in> set (list_users ?s). upper_ascii e = upper_ascii ''alice''"
    by (simp add: users upper_ascii_examples)
  have d2: "\<not> (\<exists>e \<in> set (list_users ?s). upper_ascii e = upper_ascii ''bad id'')
            \<and> (CHR '' '' \<in> set ''bad id'' \<or> CHR 0x27 \<in> set ''bad id'')"
    by (simp add: users upper_ascii_examples)
  have d3: "\<not> (\<exists>e \<in> set (list_users ?s). upper_ascii e = upper_ascii ''mallory'')
            \<and> CHR '' '' \<notin> set ''mallory'' \<and> CHR 0x27 \<notin> set ''mallory''"
    by (simp add: users upper_ascii_examples)
  have r1: "FUN_add_user upper_ascii ?s (Some ''alice'') ''pw'' =
      (Render ''admin.html'' [''id_to_add_is_duplicated''] (user_table (list_users ?s)), ?s)"
    using add_user_checks [OF adm norm, of "''alice''" "''pw''"] d1 by blast
  have r2: "FUN_add_user upper_ascii ?s (Some ''bad id'') ''pw'' =
      (Render ''admin.html'' [''id_to_add_is_invalid''] (user_table (list_users ?s)), ?s)"
    using add_user_checks [OF adm norm, of "''bad id''" "''pw''"] d2 by blast
  have r3: "FUN_add_user upper_ascii ?s (Some ''mallory'') ''pw'' =
      (Redirect ''FUN_admin'', ?s\<lparr>user_db := user_db ?s @ [(upper_ascii ''mallory'', ''pw'')]\<rparr>)"
    using add_user_checks [OF adm norm, of "''mallory''" "''pw''"] d3 by blast
  have tab: "user_table (list_users ?s) =
      [(1, ''ADMIN'', ''/delete_user/ADMIN''), (2, ''BOB'', ''/delete_user/BOB''),
       (3, ''ALICE'', ''/delete_user/ALICE'')]"
    unfolding users by (simp add: user_table_def upt_rec)
  have m: "map upper_ascii (list_users ?s) = list_users ?s"
    unfolding users by (simp add: upper_ascii_examples)
  show ?thesis
    unfolding r1 r2 r3 tab db m using adm by (simp add: upper_ascii_examples)
qed

subsection \<open>Uploading an image\<close>

text \<open>
  Claim C7. \<open>allowed_file\<close> holds exactly for the names \<open>stem.ext\<close> whose last segment
  \<open>ext\<close> (no dot in it) is, lower-cased, one of png, jpg, jpeg, gif. For every other name
  the upload redirects to the private page, raises nothing, and leaves the upload folder
  and the image table as they were.
\<close>

theorem upload_extension_check:
  "(allowed_file filename \<longleftrightarrow>
      (\<exists>stem ext. filename = stem @ ''.'' @ ext \<and> CHR ''.'' \<notin> set ext
         \<and> lower ext \<in> {''png'', ''jpg'', ''jpeg'', ''gif''}))
 \<and> (\<not> allowed_file filename \<longrightarrow>
      fst (FUN_upload_image sha1_hex secure_filename now s (Some (filename, bytes)))
        = Redirect ''FUN_private''
    \<and> upload_folder (snd (FUN_upload_image sha1_hex secure_filename now s (Some (filename, bytes))))
        = upload_folder s
    \<and> image_db (snd (FUN_upload_image sha1_hex secure_filename now s (Some (filename, bytes))))
        = image_db s)"
proof (intro conjI impI iffI)
  assume a: "allowed_file filename"
  then have dot: "CHR ''.'' \<in> set filename" by (simp add: allowed_file_def)
  from rsplit_last_decompose [OF dot] obtain stem where
    "filename = stem @ ''.'' @ rsplit_last filename" "CHR ''.'' \<notin> set (rsplit_last filename)"
    by auto
  moreover from a have "lower (rsplit_last filename) \<in> {''png'', ''jpg'', ''jpeg'', ''gif''}"
    by (simp add: allowed_file_def ALLOWED_EXTENSIONS_def)
  ultimately show "\<exists>stem ext. filename = stem @ ''.'' @ ext \<and> CHR ''.'' \<notin> set ext
         \<and> lower ext \<in> {''png'', ''jpg'', ''jpeg'', ''gif''}"
    by blast
next
  assume "\<exists>stem ext. filename = stem @ ''.'' @ ext \<and> CHR ''.'' \<notin> set ext
         \<and> lower ext \<in> {''png'', ''jpg'', ''jpeg'', ''gif''}"
  then obtain stem ext where f: "filename = stem @ CHR ''.'' # ext"
    and e: "CHR ''.'' \<notin> set ext" "lower ext \<in> {''png'', ''jpg'', ''jpeg'', ''gif''}"
    by auto
  from e(1) have "rsplit_last filename = ext" unfolding f by (rule rsplit_last_append)
  with e(2) show "allowed_file filename"
    by (simp add: allowed_file_def ALLOWED_EXTENSIONS_def f)
next
  assume n: "\<not> allowed_file filename"
  then show "fst (FUN_upload_image sha1_hex secure_filename now s (Some (filename, bytes)))
        = Redirect ''FUN_private''"
    by (simp add: FUN_upload_image_def)
  from n show "upload_folder (snd (FUN_upload_image sha1_hex secure_filename now s (Some (filename, bytes))))
        = upload_folder s"
    by (simp add: FUN_upload_image_def flash_def)
  from n show "image_db (snd (FUN_upload_image sha1_hex secure_filename now s (Some (filename, bytes))))
        = image_db s"
    by (simp add: FUN_upload_image_def flash_def)
qed

theorem upload_extension_check_witness:
  "\<not> allowed_file ''malware.exe''
 \<and> FUN_upload_image (\<lambda>x. ''c0ffee'') (\<lambda>x. x) ''t9'' example_state (Some (''malware.exe'', ''MZ''))
     = (Redirect ''FUN_private'', example_state)
 \<and> allowed_file ''photo.JPG''"
  using upload_extension_check
      [of "''malware.exe''" "\<lambda>x. ''c0ffee''" "\<lambda>x. x" "''t9''" example_state "''MZ''"]
    upload_extension_check [of "''photo.JPG''"]
  by (simp add: allowed_file_examples FUN_upload_image_def)

text \<open>
  Claim C8. An upload by the logged-in user \<open>u\<close> of a file with an allowed, non-empty name:
  with \<open>F\<close> the sanitized name and \<open>T\<close> the timestamp, the file is stored under
  \<open>sha1_hex (T @ F) @ ''-'' @ F\<close>, and the row appended to the image table has the id
  \<open>sha1_hex (T @ F)\<close>, the owner \<open>u\<close>, the name \<open>F\<close> and the time \<open>T\<close>.
\<close>

theorem upload_stores_blob_and_row:
  assumes "file_filename \<noteq> ''''" and "allowed_file file_filename"
    and "current_user s = Some u"
  shows "fst (FUN_upload_image sha1_hex secure_filename now s (Some (file_filename, bytes)))
           = Redirect ''FUN_private''
       \<and> map_of (upload_folder (snd (FUN_upload_image sha1_hex secure_filename now s
                    (Some (file_filename, bytes)))))
           (sha1_hex (now @ secure_filename file_filename) @ ''-'' @ secure_filename file_filename)
           = Some bytes
       \<and> image_db (snd (FUN_upload_image sha1_hex secure_filename now s
                    (Some (file_filename, bytes))))
           = image_db s @
             [\<lparr>image_uid = sha1_hex (now @ secure_filename file_filename), image_owner = u,
               image_name = secure_filename file_filename, image_time = now\<rparr>]"
  using assms
  by (simp add: FUN_upload_image_def Let_def file_save_def image_upload_record_def
      map_of_save_entry)

theorem upload_stores_blob_and_row_witness:
  "''photo.JPG'' \<noteq> '''' \<and> allowed_file ''photo.JPG'' \<and> current_user example_state = Some ''BOB''
 \<and> FUN_upload_image (\<lambda>x. ''c0ffee'') (\<lambda>x. x) ''2024-01-01 10:00:00'' example_state
       (Some (''photo.JPG'', ''JFIF''))
     = (Redirect ''FUN_private'',
        example_state
          \<lparr>image_db := image_db example_state @
             [\<lparr>image_uid = ''c0ffee'', image_owner = ''BOB'', image_name = ''photo.JPG'',
               image_time = ''2024-01-01 10:00:00''\<rparr>],
           upload_folder := upload_folder example_state @ [(''c0ffee-photo.JPG'', ''JFIF'')]\<rparr>)"
  using upload_stores_blob_and_row
      [of "''photo.JPG''" example_state "''BOB''" "\<lambda>x. ''c0ffee''" "\<lambda>x. x"
          "''2024-01-01 10:00:00''" "''JFIF''"]
  by (simp add: allowed_file_examples eval_defs)

text \<open>
  Claim C9, as the code has it. With nobody logged in, \<open>FUN_write_note\<close> raises KeyError
  at \<open>session["current_user"]\<close> instead of answering 401, and \<open>FUN_upload_image\<close> saves the
  file before it raises the same KeyError, leaving a file without a row. The other
  handlers that change the stores test \<open>session.get("current_user", None)\<close> and answer 401.
\<close>

theorem write_without_session_raises:
  "FUN_write_note (s\<lparr>current_user := None\<rparr>) text_to_write nid now
     = (Raise KeyError, s\<lparr>current_user := None\<rparr>)
 \<and> FUN_upload_image sha1_hex secure_filename now (s\<lparr>current_user := None\<rparr>)
       (Some (''a.png'', bytes))
     = (Raise KeyError,
        file_save (s\<lparr>current_user := None\<rparr>)
          (sha1_hex (now @ secure_filename ''a.png'') @ ''-'' @ secure_filename ''a.png'') bytes)"
proof -
  have "allowed_file ''a.png''" by code_simp
  then show ?thesis
    by (simp add: FUN_write_note_def FUN_upload_image_def Let_def file_save_def)
qed

subsection \<open>Logging in\<close>

text \<open>
  Claim C10. The response of \<open>FUN_login\<close> to a submitted id is the redirect to the root
  page whether or not the credentials are right; the id is upper-cased before the lookup
  and the verification, so two submitted ids with the same upper-cased form give the same
  result; an unknown id or a wrong password leaves the state, and so the session,
  unchanged; otherwise the session's user becomes the upper-cased id and nothing else
  changes.
\<close>

theorem login_uniform_redirect:
  "fst (FUN_login str_upper s (Some i) pw) = Redirect ''FUN_root''
 \<and> (str_upper i = str_upper j \<longrightarrow>
      FUN_login str_upper s (Some i) pw = FUN_login str_upper s (Some j) pw)
 \<and> (str_upper i \<notin> set (list_users s) \<or> \<not> verify s (str_upper i) pw \<longrightarrow>
      snd (FUN_login str_upper s (Some i) pw) = s)
 \<and> (str_upper i \<in> set (list_users s) \<and> verify s (str_upper i) pw \<longrightarrow>
      snd (FUN_login str_upper s (Some i) pw) = s\<lparr>current_user := Some (str_upper i)\<rparr>)"
  by (simp add: FUN_login_def Let_def)

theorem login_uniform_redirect_witness:
  "FUN_login upper_ascii (example_state\<lparr>current_user := None\<rparr>) (Some ''bob'') ''bob-pw''
     = (Redirect ''FUN_root'', example_state)
 \<and> FUN_login upper_ascii (example_state\<lparr>current_user := None\<rparr>) (Some ''BoB'') ''bob-pw''
     = (Redirect ''FUN_root'', example_state)
 \<and> FUN_login upper_ascii (example_state\<lparr>current_user := None\<rparr>) (Some ''bob'') ''guess''
     = (Redirect ''FUN_root'', example_state\<lparr>current_user := None\<rparr>)
 \<and> FUN_login upper_ascii (example_state\<lparr>current_user := None\<rparr>) (Some ''mallory'') ''bob-pw''
     = (Redirect ''FUN_root'', example_state\<lparr>current_user := None\<rparr>)"
  using login_uniform_redirect
      [of upper_ascii "example_state\<lparr>current_user := None\<rparr>" "''bob''" "''bob-pw''" "''BoB''"]
    login_uniform_redirect
      [of upper_ascii "example_state\<lparr>current_user := None\<rparr>" "''bob''" "''guess''"]
    login_uniform_redirect
      [of upper_ascii "example_state\<lparr>current_user := None\<rparr>" "''mallory''" "''bob-pw''"]
  by (simp add: eval_defs upper_ascii_examples)

end
